theory Spec2Isabelle
  imports Complex_Main
begin

section \<open>Outcomes of an HTTP call\<close>

text \<open>
  Both route handlers reach their collaborators with axios. A call either resolves with a
  response or rejects with an error; a timeout is one of the rejections. Of a response
  the handlers read only \<open>data\<close>, the parsed body. The body is \<open>None\<close> when it is
  \<open>null\<close> or \<open>undefined\<close> (reading a property of it throws), and \<open>Some d\<close>
  otherwise, where every field of \<open>d\<close> the handler looks at may be absent and, when
  present, has the type the contract of the collaborator gives it. A JavaScript string is
  a list of code units, written here as a \<open>string\<close>; \<open>length\<close> and
  \<open>substring\<close> count code units.
\<close>

datatype axios_error =
    Timeout
  | NoResponse string
  | BadStatus nat string

datatype 'a settled = Fulfilled 'a | Rejected axios_error

fun or_str :: "string option \<Rightarrow> string \<Rightarrow> string" where
  "or_str None d = d"
| "or_str (Some s) d = (if s = [] then d else s)"

fun or_num :: "real option \<Rightarrow> real \<Rightarrow> real" where
  "or_num None d = d"
| "or_num (Some x) d = (if x = 0 then d else x)"

fun or_nat :: "nat option \<Rightarrow> nat \<Rightarrow> nat" where
  "or_nat None d = d"
| "or_nat (Some n) d = (if n = 0 then d else n)"

section \<open>The analyze route\<close>

subsection \<open>Data\<close>

record extract_data =
  d_text :: "string option"

record prediction_data =
  d_prediction :: "string option"
  d_confidence :: "real option"

record sentiment_value =
  label :: string
  score :: real

record sentiment_data =
  d_sentiment :: "sentiment_value option"

record explanation_value =
  keywords_of :: "string list"
  importance_scores :: "real list"

record explanation_data =
  d_explanation :: "explanation_value option"

record analysis_result =
  prediction :: string
  confidence :: real
  sentiment :: sentiment_value
  explanation :: explanation_value
  article_text :: string
  timestamp :: string

text \<open>
  The collaborators of one request: what each endpoint answers to a payload. The
  database handle of the request is absent, or present with an insert that works or
  throws.
\<close>

record collaborators =
  AI_ARTICLE_EXTRACT_API :: "string \<Rightarrow> extract_data option settled"
  AI_MODEL_API :: "string \<Rightarrow> prediction_data option settled"
  AI_SENTIMENT_API :: "string \<Rightarrow> sentiment_data option settled"
  AI_EXPLAIN_API :: "string \<Rightarrow> explanation_data option settled"

datatype db_handle = NoDb | DbOk | DbThrows

record request =
  body_text :: "string option"
  is_url :: bool
  db :: db_handle
  ip :: string
  user_agent :: "string option"

text \<open>What the handler does to the outside, in order.\<close>

datatype effect =
    PostExtract string
  | PostModel string
  | PostSentiment string
  | PostExplain string
  | InsertOne analysis_result string "string option"

text \<open>
  The error responses of the handler, one constructor for each \<open>res.status(...).json(...)\<close>:
  400 "Text or URL is required", 400 "Could not extract article content from URL",
  400 "Failed to extract article from URL. ...", 400 "Article text is too short for
  analysis (minimum 50 characters)", 503 "AI prediction service is unavailable. ..." and
  the 500 "Analysis failed" of the outer catch.
\<close>

datatype analyze_error =
    TextRequired
  | CouldNotExtract
  | ExtractFailed
  | TooShort
  | PredictionUnavailable
  | AnalysisFailed

fun http_status :: "analyze_error \<Rightarrow> nat" where
  "http_status TextRequired = 400"
| "http_status CouldNotExtract = 400"
| "http_status ExtractFailed = 400"
| "http_status TooShort = 400"
| "http_status PredictionUnavailable = 503"
| "http_status AnalysisFailed = 500"

text \<open>The names the specification gives to these responses.\<close>

datatype error_kind = ValidationError | ExtractionError | UpstreamUnavailable | InternalError

fun kind_of :: "analyze_error \<Rightarrow> error_kind" where
  "kind_of TextRequired = ValidationError"
| "kind_of TooShort = ValidationError"
| "kind_of CouldNotExtract = ExtractionError"
| "kind_of ExtractFailed = ExtractionError"
| "kind_of PredictionUnavailable = UpstreamUnavailable"
| "kind_of AnalysisFailed = InternalError"

subsection \<open>The handler\<close>

text \<open>
  Lines 9 to 39: the text of the request, replaced by the extracted text when the request
  carries a URL. \<open>!text\<close> holds for a missing and for an empty text;
  \<open>extractResponse.data && extractResponse.data.text\<close> fails for a missing body, a
  missing field and an empty text.
\<close>

definition resolve_text :: "collaborators \<Rightarrow> request \<Rightarrow> (analyze_error + string) \<times> effect list" where
  "resolve_text env req =
     (case body_text req of
        None \<Rightarrow> (Inl TextRequired, [])
      | Some t \<Rightarrow>
          if t = [] then (Inl TextRequired, [])
          else if is_url req then
            (case AI_ARTICLE_EXTRACT_API env t of
               Rejected e \<Rightarrow> (Inl ExtractFailed, [PostExtract t])
             | Fulfilled None \<Rightarrow> (Inl CouldNotExtract, [PostExtract t])
             | Fulfilled (Some d) \<Rightarrow>
                 (case d_text d of
                    None \<Rightarrow> (Inl CouldNotExtract, [PostExtract t])
                  | Some x \<Rightarrow>
                      if x = [] then (Inl CouldNotExtract, [PostExtract t])
                      else (Inr x, [PostExtract t])))
          else (Inr t, []))"

text \<open>Lines 69 to 74: the two signals that may be replaced by a fixed value.\<close>

definition neutral :: sentiment_value where
  "neutral = \<lparr>label = ''neutral'', score = 0.5\<rparr>"

definition no_explanation :: explanation_value where
  "no_explanation = \<lparr>keywords_of = [], importance_scores = []\<rparr>"

fun sentiment_of :: "sentiment_data option settled \<Rightarrow> sentiment_value" where
  "sentiment_of (Fulfilled (Some d)) = (case d_sentiment d of Some v \<Rightarrow> v | None \<Rightarrow> neutral)"
| "sentiment_of (Fulfilled None) = neutral"
| "sentiment_of (Rejected e) = neutral"

fun explanation_of :: "explanation_data option settled \<Rightarrow> explanation_value" where
  "explanation_of (Fulfilled (Some d)) =
     (case d_explanation d of Some v \<Rightarrow> v | None \<Rightarrow> no_explanation)"
| "explanation_of (Fulfilled None) = no_explanation"
| "explanation_of (Rejected e) = no_explanation"

text \<open>
  Lines 66 to 77. \<open>predictionResponse.value.data.prediction\<close> is read with no test of
  \<open>data\<close>: on a missing body it throws, and the outer catch answers 500.
\<close>

definition build_result ::
  "prediction_data option \<Rightarrow> sentiment_data option settled \<Rightarrow> explanation_data option settled \<Rightarrow>
   string \<Rightarrow> string \<Rightarrow> analyze_error + analysis_result" where
  "build_result pdata sentimentResponse explanationResponse articleText now_iso =
     (case pdata of
        None \<Rightarrow> Inl AnalysisFailed
      | Some p \<Rightarrow>
          Inr \<lparr>prediction = or_str (d_prediction p) ''unknown'',
               confidence = or_num (d_confidence p) 0.5,
               sentiment = sentiment_of sentimentResponse,
               explanation = explanation_of explanationResponse,
               article_text = take 2000 articleText,
               timestamp = now_iso\<rparr>)"

text \<open>Lines 81 to 93: the insert is attempted when the request has a database; a throw is logged only.\<close>

definition store :: "request \<Rightarrow> analysis_result \<Rightarrow> effect list" where
  "store req result =
     (case db req of
        NoDb \<Rightarrow> []
      | DbOk \<Rightarrow> [InsertOne result (ip req) (user_agent req)]
      | DbThrows \<Rightarrow> [InsertOne result (ip req) (user_agent req)])"

definition analyze ::
  "collaborators \<Rightarrow> string \<Rightarrow> request \<Rightarrow> (analyze_error + analysis_result) \<times> effect list" where
  "analyze env now_iso req =
     (case resolve_text env req of
        (Inl err, sent) \<Rightarrow> (Inl err, sent)
      | (Inr articleText, sent) \<Rightarrow>
          if length articleText < 50 then (Inl TooShort, sent)
          else
            let calls = sent @ [PostModel articleText, PostSentiment articleText,
                               PostExplain articleText] in
            (case AI_MODEL_API env articleText of
               Rejected e \<Rightarrow> (Inl PredictionUnavailable, calls)
             | Fulfilled pdata \<Rightarrow>
                 (case build_result pdata (AI_SENTIMENT_API env articleText)
                         (AI_EXPLAIN_API env articleText) articleText now_iso of
                    Inl err \<Rightarrow> (Inl err, calls)
                  | Inr result \<Rightarrow> (Inr result, calls @ store req result))))"

text \<open>The calls to the three analysis collaborators among the effects of a run.\<close>

fun is_analysis_call :: "effect \<Rightarrow> bool" where
  "is_analysis_call (PostModel t) = True"
| "is_analysis_call (PostSentiment t) = True"
| "is_analysis_call (PostExplain t) = True"
| "is_analysis_call e = False"


section \<open>The trending route\<close>

subsection \<open>Data\<close>

record article_source =
  source_name :: string
  source_url :: string

text \<open>
  An article of the provider. \<open>article.source.name\<close> is read with no test of
  \<open>article.source\<close>, so a missing source makes the transformation throw.
\<close>

record gnews_article =
  g_title :: string
  g_description :: string
  g_url :: string
  g_image :: string
  g_publishedAt :: string
  g_source :: "article_source option"

record gnews_data =
  g_articles :: "gnews_article list option"
  g_totalArticles :: "nat option"

record feed_article =
  title :: string
  description :: string
  url :: string
  image :: string
  publishedAt :: string
  source :: article_source

record feed_result =
  articles :: "feed_article list"
  totalResults :: nat
  feed_timestamp :: string
  remainingRequests :: int

text \<open>
  The module's variables: the three of the rate limiter and the cache, which holds at most
  the entry of the key \<open>trending-news\<close>, a value with the instant at which it expires
  (milliseconds, as \<open>Date.now()\<close>). A calendar day is the string \<open>toDateString()\<close> gives.
\<close>

record server_state =
  lastRequestTime :: int
  dailyRequests :: nat
  lastResetDate :: string
  cache :: "(feed_result \<times> int) option"

definition initial_state :: "string \<Rightarrow> server_state" where
  "initial_state loaded_on =
     \<lparr>lastRequestTime = 0, dailyRequests = 0, lastResetDate = loaded_on, cache = None\<rparr>"

text \<open>
  The environment variables the route reads. The quota variable is taken as parsed: a
  count when it is set, \<open>None\<close> when it is unset or empty.
\<close>

record config =
  GNEWS_API_KEY :: "string option"
  GNEWS_RATE_LIMIT_PER_DAY :: "nat option"

definition daily_limit :: "config \<Rightarrow> nat" where
  "daily_limit cfg = (case GNEWS_RATE_LIMIT_PER_DAY cfg of None \<Rightarrow> 100 | Some n \<Rightarrow> n)"

subsection \<open>The cache\<close>

text \<open>Line 8: \<open>new NodeCache({ stdTTL: 1800 })\<close>, in seconds.\<close>

definition stdTTL :: int where
  "stdTTL = 1800"

text \<open>
  Modelled from the spec: the \<open>get\<close> of the node-cache library, which the route calls and
  which is not among the sources. The ResultCache of the specification has one slot, and
  its \<open>get\<close> is empty once \<open>now \<ge> expiresAt\<close>.
\<close>

definition cache_get :: "int \<Rightarrow> server_state \<Rightarrow> feed_result option" where
  "cache_get now s =
     (case cache s of
        None \<Rightarrow> None
      | Some (v, expiresAt) \<Rightarrow> if now \<ge> expiresAt then None else Some v)"

text \<open>
  Modelled from the spec: the \<open>set\<close> of the node-cache library, not among the sources
  either. It overwrites the slot with a value that expires when the TTL has passed.
\<close>

definition cache_set :: "feed_result \<Rightarrow> int \<Rightarrow> server_state \<Rightarrow> server_state" where
  "cache_set v now s = s\<lparr>cache := Some (v, now + stdTTL * 1000)\<rparr>"

subsection \<open>The rate limiter\<close>

datatype rate_error = DailyQuotaExceeded | TooFrequent

text \<open>
  \<open>checkRateLimit\<close>, lines 15 to 36, with the two readings of the clock it makes as
  arguments. \<open>DailyQuotaExceeded\<close> is the throw of "Daily rate limit exceeded",
  \<open>TooFrequent\<close> that of "Rate limit: Please wait before making another request". The
  reset of the counter is kept when the function throws.
\<close>

definition checkRateLimit ::
  "config \<Rightarrow> string \<Rightarrow> int \<Rightarrow> server_state \<Rightarrow> (rate_error + unit) \<times> server_state" where
  "checkRateLimit cfg today now s =
     (let s1 = (if lastResetDate s \<noteq> today
                then s\<lparr>dailyRequests := 0, lastResetDate := today\<rparr> else s)
      in if dailyRequests s1 \<ge> daily_limit cfg then (Inl DailyQuotaExceeded, s1)
         else if now - lastRequestTime s1 < 1000 then (Inl TooFrequent, s1)
         else (Inr (), s1))"

text \<open>
  Lines 56 to 67 of the handler: the check, and on success the two assignments that
  consume the quota. No \<open>await\<close> separates them. \<open>now2\<close> is the reading of the clock
  of line 66.
\<close>

definition checkAndConsume ::
  "config \<Rightarrow> string \<Rightarrow> int \<Rightarrow> int \<Rightarrow> server_state \<Rightarrow> (rate_error + unit) \<times> server_state" where
  "checkAndConsume cfg today now now2 s =
     (case checkRateLimit cfg today now s of
        (Inl e, s1) \<Rightarrow> (Inl e, s1)
      | (Inr u, s1) \<Rightarrow>
          (Inr (), s1\<lparr>lastRequestTime := now2, dailyRequests := dailyRequests s1 + 1\<rparr>))"

subsection \<open>The handler\<close>

text \<open>
  The error responses: 503 "GNews API key not configured", 429 with the message of the
  rate limiter and \<open>retryAfter: 3600\<close>, and from the outer catch 429 "GNews API rate limit
  exceeded", 503 "Invalid GNews API key" and 500 "Failed to fetch trending news".
\<close>

datatype trending_error =
    KeyNotConfigured
  | RateLimited rate_error
  | ProviderRateLimit
  | InvalidApiKey
  | FetchFailed

datatype trending_response = Feed feed_result | Failure trending_error

fun retryAfter :: "trending_error \<Rightarrow> nat option" where
  "retryAfter (RateLimited e) = Some 3600"
| "retryAfter ProviderRateLimit = Some 3600"
| "retryAfter e = None"

text \<open>The readings of the clock one request makes before it awaits the provider.\<close>

record clock =
  at_get :: int
  today :: string
  at_check :: int
  at_consume :: int

text \<open>
  Lines 41 to 67, up to the \<open>await\<close>: the handler either answers, or has consumed quota
  and calls the provider.
\<close>

datatype pending = Respond trending_response | CallProvider

definition key_configured :: "config \<Rightarrow> bool" where
  "key_configured cfg =
     (case GNEWS_API_KEY cfg of
        None \<Rightarrow> False
      | Some k \<Rightarrow> k \<noteq> [] \<and> k \<noteq> ''your_gnews_api_key_here'')"

definition trending_begin :: "config \<Rightarrow> clock \<Rightarrow> server_state \<Rightarrow> pending \<times> server_state" where
  "trending_begin cfg clk s =
     (case cache_get (at_get clk) s of
        Some cached \<Rightarrow> (Respond (Feed cached), s)
      | None \<Rightarrow>
          if \<not> key_configured cfg then (Respond (Failure KeyNotConfigured), s)
          else
            (case checkAndConsume cfg (today clk) (at_check clk) (at_consume clk) s of
               (Inl e, s1) \<Rightarrow> (Respond (Failure (RateLimited e)), s1)
             | (Inr u, s1) \<Rightarrow> (CallProvider, s1)))"

text \<open>Lines 84 to 94.\<close>

fun transform :: "gnews_article list \<Rightarrow> feed_article list option" where
  "transform [] = Some []"
| "transform (a # as) =
     (case g_source a of
        None \<Rightarrow> None
      | Some src \<Rightarrow>
          (case transform as of
             None \<Rightarrow> None
           | Some rest \<Rightarrow>
               Some (\<lparr>title = g_title a, description = g_description a, url = g_url a,
                      image = g_image a, publishedAt = g_publishedAt a,
                      source = \<lparr>source_name = source_name src, source_url = source_url src\<rparr>\<rparr>
                     # rest)))"

text \<open>The outer catch, lines 108 to 130, on a rejection of the provider call.\<close>

fun on_rejection :: "axios_error \<Rightarrow> trending_error" where
  "on_rejection (BadStatus st msg) =
     (if st = 429 then ProviderRateLimit else if st = 401 then InvalidApiKey else FetchFailed)"
| "on_rejection e = FetchFailed"

text \<open>
  Lines 69 to 106, from the moment the provider call settles. Other requests may have run
  in between, so the state is the one of that moment; \<open>now_iso\<close> and \<open>now\<close> are the
  readings of the clock for the timestamp and for the cache.
\<close>

definition trending_finish ::
  "config \<Rightarrow> string \<Rightarrow> int \<Rightarrow> gnews_data option settled \<Rightarrow> server_state \<Rightarrow>
   trending_response \<times> server_state" where
  "trending_finish cfg now_iso now response s =
     (case response of
        Rejected e \<Rightarrow> (Failure (on_rejection e), s)
      | Fulfilled None \<Rightarrow> (Failure FetchFailed, s)
      | Fulfilled (Some d) \<Rightarrow>
          (case g_articles d of
             None \<Rightarrow> (Failure FetchFailed, s)
           | Some raw \<Rightarrow>
               (case transform raw of
                  None \<Rightarrow> (Failure FetchFailed, s)
                | Some arts \<Rightarrow>
                    let result =
                      \<lparr>articles = arts,
                       totalResults = or_nat (g_totalArticles d) (length arts),
                       feed_timestamp = now_iso,
                       remainingRequests = max 0 (int (daily_limit cfg) - int (dailyRequests s))\<rparr>
                    in (Feed result, cache_set result now s))))"

text \<open>One request that nothing interleaves with; the flag tells whether the provider was called.\<close>

definition fetchTrending ::
  "config \<Rightarrow> clock \<Rightarrow> string \<Rightarrow> int \<Rightarrow> gnews_data option settled \<Rightarrow> server_state \<Rightarrow>
   (trending_response \<times> bool) \<times> server_state" where
  "fetchTrending cfg clk now_iso now response s =
     (case trending_begin cfg clk s of
        (Respond r, s1) \<Rightarrow> ((r, False), s1)
      | (CallProvider, s1) \<Rightarrow>
          (case trending_finish cfg now_iso now response s1 of
             (r, s2) \<Rightarrow> ((r, True), s2)))"

text \<open>
  The states the module can be in: the one at load, and those left by the two halves of
  any request, in any order.
\<close>

inductive reachable :: "config \<Rightarrow> server_state \<Rightarrow> bool" for cfg :: config where
  at_load: "reachable cfg (initial_state d)"
| after_begin: "reachable cfg s \<Longrightarrow> reachable cfg (snd (trending_begin cfg clk s))"
| after_finish: "reachable cfg s \<Longrightarrow> reachable cfg (snd (trending_finish cfg now_iso now response s))"

text \<open>A run of attempts at consumption on one calendar day, each with its two clock readings.\<close>

fun consume_all ::
  "config \<Rightarrow> string \<Rightarrow> (int \<times> int) list \<Rightarrow> server_state \<Rightarrow> (rate_error + unit) list \<times> server_state" where
  "consume_all cfg day [] s = ([], s)"
| "consume_all cfg day ((now, now2) # ts) s =
     (case checkAndConsume cfg day now now2 s of
        (r, s1) \<Rightarrow> (case consume_all cfg day ts s1 of (rs, s2) \<Rightarrow> (r # rs, s2)))"

definition successes :: "(rate_error + unit) list \<Rightarrow> nat" where
  "successes rs = length (filter (\<lambda>r. r = Inr ()) rs)"

text \<open>The requests already counted for a day: the counter, if it is that day's.\<close>

definition counted_on :: "string \<Rightarrow> server_state \<Rightarrow> nat" where
  "counted_on day s = (if lastResetDate s = day then dailyRequests s else 0)"

text \<open>The two facts about a state that every request keeps.\<close>

definition state_inv :: "config \<Rightarrow> server_state \<Rightarrow> bool" where
  "state_inv cfg s \<longleftrightarrow> dailyRequests s \<le> daily_limit cfg
     \<and> (case cache s of None \<Rightarrow> True | Some (v, e) \<Rightarrow> 0 \<le> remainingRequests v)"

section \<open>Concrete requests, collaborators and states\<close>

definition long_text :: string where
  "long_text = replicate 60 (CHR ''a'')"

definition plain_request :: request where
  "plain_request = \<lparr>body_text = Some long_text, is_url = False, db = NoDb, ip = ''::1'',
                     user_agent = None\<rparr>"

definition short_request :: request where
  "short_request = \<lparr>body_text = Some ''Too short to analyse.'', is_url = False, db = DbOk,
                     ip = ''::1'', user_agent = None\<rparr>"



definition all_up :: collaborators where
  "all_up =
     \<lparr>AI_ARTICLE_EXTRACT_API = (\<lambda>u. Fulfilled (Some \<lparr>d_text = Some long_text\<rparr>)),
      AI_MODEL_API = (\<lambda>t. Fulfilled (Some \<lparr>d_prediction = Some ''fake'', d_confidence = Some 0.87\<rparr>)),
      AI_SENTIMENT_API =
        (\<lambda>t. Fulfilled (Some \<lparr>d_sentiment = Some \<lparr>label = ''positive'', score = 0.6\<rparr>\<rparr>)),
      AI_EXPLAIN_API = (\<lambda>t. Fulfilled (Some \<lparr>d_explanation =
          Some \<lparr>keywords_of = [''shocking''], importance_scores = [0.4]\<rparr>\<rparr>))\<rparr>"

definition model_down :: collaborators where
  "model_down =
     \<lparr>AI_ARTICLE_EXTRACT_API = (\<lambda>u. Rejected Timeout),
      AI_MODEL_API = (\<lambda>t. Rejected Timeout),
      AI_SENTIMENT_API =
        (\<lambda>t. Fulfilled (Some \<lparr>d_sentiment = Some \<lparr>label = ''positive'', score = 0.6\<rparr>\<rparr>)),
      AI_EXPLAIN_API = (\<lambda>t. Rejected (NoResponse ''ECONNREFUSED''))\<rparr>"

definition null_body :: collaborators where
  "null_body =
     \<lparr>AI_ARTICLE_EXTRACT_API = (\<lambda>u. Rejected Timeout),
      AI_MODEL_API = (\<lambda>t. Fulfilled None),
      AI_SENTIMENT_API = (\<lambda>t. Rejected Timeout),
      AI_EXPLAIN_API = (\<lambda>t. Rejected Timeout)\<rparr>"

definition odd_model :: collaborators where
  "odd_model =
     \<lparr>AI_ARTICLE_EXTRACT_API = (\<lambda>u. Rejected Timeout),
      AI_MODEL_API = (\<lambda>t. Fulfilled (Some \<lparr>d_prediction = None, d_confidence = Some 1.5\<rparr>)),
      AI_SENTIMENT_API = (\<lambda>t. Rejected Timeout),
      AI_EXPLAIN_API = (\<lambda>t. Rejected Timeout)\<rparr>"


definition bare_answers :: collaborators where
  "bare_answers =
     \<lparr>AI_ARTICLE_EXTRACT_API = (\<lambda>u. Rejected Timeout),
      AI_MODEL_API = (\<lambda>t. Fulfilled (Some \<lparr>d_prediction = Some ''real'', d_confidence = Some 0.9\<rparr>)),
      AI_SENTIMENT_API = (\<lambda>t. Fulfilled (Some \<lparr>d_sentiment = None\<rparr>)),
      AI_EXPLAIN_API = (\<lambda>t. Fulfilled None)\<rparr>"

definition bare_null_prediction :: collaborators where
  "bare_null_prediction =
     \<lparr>AI_ARTICLE_EXTRACT_API = (\<lambda>u. Rejected Timeout),
      AI_MODEL_API = (\<lambda>t. Fulfilled None),
      AI_SENTIMENT_API = (\<lambda>t. Fulfilled (Some \<lparr>d_sentiment = None\<rparr>)),
      AI_EXPLAIN_API = (\<lambda>t. Fulfilled None)\<rparr>"

definition fake_result :: analysis_result where
  "fake_result =
     \<lparr>prediction = ''fake'', confidence = 0.87,
      sentiment = \<lparr>label = ''positive'', score = 0.6\<rparr>,
      explanation = \<lparr>keywords_of = [''shocking''], importance_scores = [0.4]\<rparr>,
      article_text = long_text, timestamp = ''2026-11-03T09:00:00.000Z''\<rparr>"

definition tuesday :: string where
  "tuesday = ''Tue Nov 03 2026''"

definition monday :: string where
  "monday = ''Mon Nov 02 2026''"

definition default_cfg :: config where
  "default_cfg = \<lparr>GNEWS_API_KEY = Some ''0123456789abcdef'', GNEWS_RATE_LIMIT_PER_DAY = None\<rparr>"

definition small_cfg :: config where
  "small_cfg = \<lparr>GNEWS_API_KEY = Some ''0123456789abcdef'', GNEWS_RATE_LIMIT_PER_DAY = Some 2\<rparr>"

definition no_key_cfg :: config where
  "no_key_cfg = \<lparr>GNEWS_API_KEY = None, GNEWS_RATE_LIMIT_PER_DAY = None\<rparr>"

definition three_attempts :: "(int \<times> int) list" where
  "three_attempts = [(1793700000000, 1793700000000), (1793700000600, 1793700000600),
                     (1793700001100, 1793700001100)]"

definition after_monday :: server_state where
  "after_monday = \<lparr>lastRequestTime = 1793650000000, dailyRequests = 7, lastResetDate = monday,
                    cache = None\<rparr>"

definition first_clock :: clock where
  "first_clock = \<lparr>at_get = 1793700000000, today = tuesday, at_check = 1793700000000,
                   at_consume = 1793700000000\<rparr>"

definition later_clock :: clock where
  "later_clock = \<lparr>at_get = 1793701800500, today = tuesday, at_check = 1793701800500,
                   at_consume = 1793701800500\<rparr>"

definition one_article :: gnews_data where
  "one_article =
     \<lparr>g_articles = Some [\<lparr>g_title = ''Headline'', g_description = ''Summary'',
                          g_url = ''https://example.org/1'', g_image = ''https://example.org/1.png'',
                          g_publishedAt = ''2026-11-03T08:00:00Z'',
                          g_source = Some \<lparr>source_name = ''Example'', source_url = ''https://example.org''\<rparr>\<rparr>],
      g_totalArticles = Some 1\<rparr>"

definition one_feed :: feed_result where
  "one_feed =
     \<lparr>articles = [\<lparr>title = ''Headline'', description = ''Summary'',
                   url = ''https://example.org/1'', image = ''https://example.org/1.png'',
                   publishedAt = ''2026-11-03T08:00:00Z'',
                   source = \<lparr>source_name = ''Example'', source_url = ''https://example.org''\<rparr>\<rparr>],
      totalResults = 1, feed_timestamp = ''2026-11-03T09:00:00.500Z'', remainingRequests = 99\<rparr>"

definition consumed_once :: server_state where
  "consumed_once = \<lparr>lastRequestTime = 1793700000000, dailyRequests = 1, lastResetDate = tuesday,
                     cache = None\<rparr>"

definition feed_cached :: server_state where
  "feed_cached = \<lparr>lastRequestTime = 1793700000000, dailyRequests = 1, lastResetDate = tuesday,
                   cache = Some (one_feed, 1793701800500)\<rparr>"

section \<open>Properties of the analyze route\<close>

subsection \<open>Auxiliary facts\<close>

lemma resolve_text_no_analysis_call:
  "filter is_analysis_call (snd (resolve_text env req)) = []"
  by (auto simp: resolve_text_def split: option.splits if_splits settled.splits)

lemma analyze_model_call:
  assumes "PostModel t \<in> set (snd (analyze env now_iso req))"
  shows "\<exists>sent. resolve_text env req = (Inr t, sent) \<and> 50 \<le> length t"
proof -
  obtain r sent where rs: "resolve_text env req = (r, sent)" by (cases "resolve_text env req")
  have nm: "PostModel t \<notin> set sent"
    using rs by (auto simp: resolve_text_def split: option.splits if_splits settled.splits)
  show ?thesis
    using assms rs nm
    by (auto simp: analyze_def Let_def store_def split: sum.splits if_splits settled.splits db_handle.splits)
qed

lemma long_text_length: "length long_text = 60" by (simp add: long_text_def)
lemma long_text_nonempty: "long_text \<noteq> []" using long_text_length by auto

lemma resolve_plain: "resolve_text env plain_request = (Inr long_text, [])"
  by (simp add: resolve_text_def plain_request_def long_text_nonempty)

lemma analyze_with_body:
  assumes "resolve_text env req = (Inr t, sent)" and "50 \<le> length t"
      and "AI_MODEL_API env t = Fulfilled (Some p)"
  shows "fst (analyze env now_iso req) =
           Inr \<lparr>prediction = or_str (d_prediction p) ''unknown'',
                confidence = or_num (d_confidence p) 0.5,
                sentiment = sentiment_of (AI_SENTIMENT_API env t),
                explanation = explanation_of (AI_EXPLAIN_API env t),
                article_text = take 2000 t,
                timestamp = now_iso\<rparr>"
  using assms by (simp add: analyze_def Let_def build_result_def)

lemma analyze_success:
  assumes "fst (analyze env now_iso req) = Inr r"
  shows "\<exists>t sent p. resolve_text env req = (Inr t, sent) \<and> 50 \<le> length t
           \<and> AI_MODEL_API env t = Fulfilled (Some p)"
proof -
  obtain x sent where rs: "resolve_text env req = (x, sent)" by (cases "resolve_text env req")
  show ?thesis
    using assms rs
    by (auto simp: analyze_def Let_def build_result_def
             split: sum.splits if_splits settled.splits option.splits)
qed


subsection \<open>Failure of the prediction call\<close>

text \<open>
  Claim C1. Whenever a request gets as far as calling the prediction collaborator and that
  call is rejected (any error, a timeout included), the handler answers 503, the
  UpstreamUnavailable of the specification, and no result, whatever the sentiment and
  explanation calls give.
\<close>

theorem prediction_failure_unavailable:
  assumes "PostModel t \<in> set (snd (analyze env now_iso req))"
      and "AI_MODEL_API env t = Rejected e"
  shows "fst (analyze env now_iso req) = Inl PredictionUnavailable
         \<and> kind_of PredictionUnavailable = UpstreamUnavailable
         \<and> http_status PredictionUnavailable = 503"
proof -
  from analyze_model_call [OF assms(1)] obtain sent
    where "resolve_text env req = (Inr t, sent)" and "50 \<le> length t" by blast
  with assms(2) show ?thesis by (simp add: analyze_def Let_def)
qed

theorem prediction_failure_unavailable_witness:
  "PostModel long_text \<in> set (snd (analyze model_down ''2026-11-03T09:00:00.000Z'' plain_request))
   \<and> AI_MODEL_API model_down long_text = Rejected Timeout
   \<and> fst (analyze model_down ''2026-11-03T09:00:00.000Z'' plain_request) = Inl PredictionUnavailable"
proof -
  have a: "AI_MODEL_API model_down long_text = Rejected Timeout" by (simp add: model_down_def)
  have b: "PostModel long_text \<in> set (snd (analyze model_down ''2026-11-03T09:00:00.000Z'' plain_request))"
    by (simp add: analyze_def resolve_plain long_text_length Let_def a)
  from prediction_failure_unavailable [OF b a] a b show ?thesis by simp
qed


subsection \<open>Fallback values\<close>

text \<open>
  With a prediction response that has a body, a rejected sentiment or explanation call is
  replaced by the fixed value and the request succeeds.
\<close>

lemma degraded_result:
  assumes "resolve_text env req = (Inr t, sent)" and "50 \<le> length t"
      and "AI_MODEL_API env t = Fulfilled (Some p)"
      and "AI_SENTIMENT_API env t = Rejected e1" and "AI_EXPLAIN_API env t = Rejected e2"
  shows "\<exists>r. fst (analyze env now_iso req) = Inr r \<and> sentiment r = neutral
             \<and> explanation r = no_explanation"
  using analyze_with_body [OF assms(1,2,3), of now_iso] assms(4,5) by simp

text \<open>
  Claim C3. The claim promises a successful result with the fallback values for every
  request whose prediction call succeeds. A prediction call that is fulfilled with the
  body \<open>null\<close> is a counterexample in the code: the handler reads
  \<open>predictionResponse.value.data.prediction\<close> with no test of \<open>data\<close>, unlike the
  sentiment and explanation lines beside it, and the request ends in the 500 of the outer
  catch instead of a result.
\<close>

theorem null_prediction_body_fails:
  "AI_MODEL_API null_body long_text = Fulfilled None
   \<and> AI_SENTIMENT_API null_body long_text = Rejected Timeout
   \<and> analyze null_body ''2026-11-03T09:00:00.000Z'' plain_request =
       (Inl AnalysisFailed, [PostModel long_text, PostSentiment long_text, PostExplain long_text])
   \<and> http_status AnalysisFailed = 500"
  by (simp add: analyze_def resolve_plain long_text_length Let_def null_body_def build_result_def)

text \<open>
  With a prediction response that has a body, the fixed values are also used when the
  sentiment or explanation call is fulfilled and its body is missing or lacks the field:
  the result then carries \<open>{label: "neutral", score: 0.5}\<close>, respectively
  \<open>{keywords: [], importance_scores: []}\<close>, and the request succeeds.
\<close>

lemma fallback_on_missing_field:
  assumes "resolve_text env req = (Inr t, sent)" and "50 \<le> length t"
      and "AI_MODEL_API env t = Fulfilled (Some p)"
  shows "(AI_SENTIMENT_API env t = Fulfilled None
            \<or> (\<exists>d. AI_SENTIMENT_API env t = Fulfilled (Some d) \<and> d_sentiment d = None) \<longrightarrow>
          (\<exists>r. fst (analyze env now_iso req) = Inr r \<and> sentiment r = \<lparr>label = ''neutral'', score = 0.5\<rparr>))
       \<and> (AI_EXPLAIN_API env t = Fulfilled None
            \<or> (\<exists>d. AI_EXPLAIN_API env t = Fulfilled (Some d) \<and> d_explanation d = None) \<longrightarrow>
          (\<exists>r. fst (analyze env now_iso req) = Inr r
                \<and> explanation r = \<lparr>keywords_of = [], importance_scores = []\<rparr>))"
  using analyze_with_body [OF assms, of now_iso]
  by (auto simp: neutral_def no_explanation_def)


lemma fallback_on_missing_field_witness:
  "resolve_text bare_answers plain_request = (Inr long_text, [])
   \<and> 50 \<le> length long_text
   \<and> AI_SENTIMENT_API bare_answers long_text = Fulfilled (Some \<lparr>d_sentiment = None\<rparr>)
   \<and> AI_EXPLAIN_API bare_answers long_text = Fulfilled None
   \<and> sentiment (projr (fst (analyze bare_answers ''2026-11-03T09:00:00.000Z'' plain_request)))
       = \<lparr>label = ''neutral'', score = 0.5\<rparr>
   \<and> explanation (projr (fst (analyze bare_answers ''2026-11-03T09:00:00.000Z'' plain_request)))
       = \<lparr>keywords_of = [], importance_scores = []\<rparr>"
proof -
  have a: "resolve_text bare_answers plain_request = (Inr long_text, [])" by (rule resolve_plain)
  have b: "50 \<le> length long_text" by (simp add: long_text_length)
  have c: "AI_MODEL_API bare_answers long_text =
             Fulfilled (Some \<lparr>d_prediction = Some ''real'', d_confidence = Some 0.9\<rparr>)"
    by (simp add: bare_answers_def)
  have d: "AI_SENTIMENT_API bare_answers long_text = Fulfilled (Some \<lparr>d_sentiment = None\<rparr>)"
    by (simp add: bare_answers_def)
  have e: "AI_EXPLAIN_API bare_answers long_text = Fulfilled None"
    by (simp add: bare_answers_def)
  from fallback_on_missing_field [OF a b c, of "''2026-11-03T09:00:00.000Z''"] d e
  have "sentiment (projr (fst (analyze bare_answers ''2026-11-03T09:00:00.000Z'' plain_request)))
          = \<lparr>label = ''neutral'', score = 0.5\<rparr>
        \<and> explanation (projr (fst (analyze bare_answers ''2026-11-03T09:00:00.000Z'' plain_request)))
          = \<lparr>keywords_of = [], importance_scores = []\<rparr>"
    by auto
  with a b d e show ?thesis by simp
qed

text \<open>
  Claim C9. The claim promises the fallback values and a successful result whenever the
  sentiment or explanation call is fulfilled with missing data. The handler does so only
  when the prediction response has a body. When the prediction call is fulfilled with the
  body \<open>null\<close>, the sentiment call is fulfilled without the field and the explanation
  call is fulfilled without a body, the read of
  \<open>predictionResponse.value.data.prediction\<close> throws before the fallback lines are
  reached, and the request ends in the 500 of the outer catch: no fallback value and no
  result.
\<close>

theorem missing_field_with_null_prediction_fails:
  "AI_MODEL_API bare_null_prediction long_text = Fulfilled None
   \<and> AI_SENTIMENT_API bare_null_prediction long_text = Fulfilled (Some \<lparr>d_sentiment = None\<rparr>)
   \<and> AI_EXPLAIN_API bare_null_prediction long_text = Fulfilled None
   \<and> sentiment_of (AI_SENTIMENT_API bare_null_prediction long_text) = neutral
   \<and> explanation_of (AI_EXPLAIN_API bare_null_prediction long_text) = no_explanation
   \<and> analyze bare_null_prediction ''2026-11-03T09:00:00.000Z'' plain_request =
       (Inl AnalysisFailed, [PostModel long_text, PostSentiment long_text, PostExplain long_text])
   \<and> http_status AnalysisFailed = 500"
  by (simp add: analyze_def resolve_plain long_text_length Let_def bare_null_prediction_def
        build_result_def)

subsection \<open>The fields of a result\<close>

text \<open>
  Claim C5, as stated, fails: the handler writes \<open>"unknown"\<close> when the prediction
  response carries no prediction, and passes the collaborator's confidence on as it is.
\<close>

theorem result_prediction_counterexample:
  "fst (analyze odd_model ''2026-11-03T09:00:00.000Z'' plain_request) =
     Inr \<lparr>prediction = ''unknown'', confidence = 1.5, sentiment = neutral,
          explanation = no_explanation, article_text = take 2000 long_text,
          timestamp = ''2026-11-03T09:00:00.000Z''\<rparr>
   \<and> ''unknown'' \<notin> {''real'', ''fake''} \<and> \<not> ((1.5::real) \<le> 1)"
  by (simp add: analyze_def resolve_plain long_text_length Let_def odd_model_def build_result_def)

text \<open>
  Claim C5, amended. Every result has as stored text the first 2000 characters of the
  resolved text; its prediction is the one of the prediction response, or "unknown" when
  the response carries none or an empty one; its confidence is the one of the response,
  or 0.5 when the response carries none or 0. So when the prediction of the response, if
  any, is "real" or "fake", that of the result is "real", "fake" or "unknown", and when the
  confidence of the response, if any, is in [0,1], so is that of the result.
\<close>

theorem result_fields:
  assumes "fst (analyze env now_iso req) = Inr r"
      and "resolve_text env req = (Inr t, sent)"
      and "AI_MODEL_API env t = Fulfilled (Some p)"
  shows "article_text r = take 2000 t
         \<and> prediction r = or_str (d_prediction p) ''unknown''
         \<and> confidence r = or_num (d_confidence p) 0.5
         \<and> (d_prediction p = None \<or> d_prediction p = Some ''real''
              \<or> d_prediction p = Some ''fake'' \<longrightarrow>
             prediction r \<in> {''real'', ''fake'', ''unknown''})
         \<and> (d_confidence p = None
              \<or> (\<exists>c. d_confidence p = Some c \<and> 0 \<le> c \<and> c \<le> 1) \<longrightarrow>
             0 \<le> confidence r \<and> confidence r \<le> 1)"
proof -
  from analyze_success [OF assms(1)] assms(2) have len: "50 \<le> length t" by auto
  from analyze_with_body [OF assms(2) len assms(3), of now_iso] assms(1)
  have r: "r = \<lparr>prediction = or_str (d_prediction p) ''unknown'',
                confidence = or_num (d_confidence p) 0.5,
                sentiment = sentiment_of (AI_SENTIMENT_API env t),
                explanation = explanation_of (AI_EXPLAIN_API env t),
                article_text = take 2000 t,
                timestamp = now_iso\<rparr>" by simp
  have a: "article_text r = take 2000 t \<and> prediction r = or_str (d_prediction p) ''unknown''
           \<and> confidence r = or_num (d_confidence p) 0.5"
    by (simp add: r)
  have b: "d_prediction p = None \<or> d_prediction p = Some ''real''
              \<or> d_prediction p = Some ''fake'' \<longrightarrow>
             prediction r \<in> {''real'', ''fake'', ''unknown''}"
    by (auto simp: r)
  have c: "d_confidence p = None
              \<or> (\<exists>c. d_confidence p = Some c \<and> 0 \<le> c \<and> c \<le> 1) \<longrightarrow>
             0 \<le> confidence r \<and> confidence r \<le> 1"
    by (auto simp: r)
  show ?thesis using a b c by blast
qed

theorem result_fields_witness:
  "fst (analyze all_up ''2026-11-03T09:00:00.000Z'' plain_request) = Inr fake_result
   \<and> resolve_text all_up plain_request = (Inr long_text, [])
   \<and> AI_MODEL_API all_up long_text =
       Fulfilled (Some \<lparr>d_prediction = Some ''fake'', d_confidence = Some 0.87\<rparr>)
   \<and> article_text fake_result = take 2000 long_text
   \<and> prediction fake_result \<in> {''real'', ''fake'', ''unknown''}
   \<and> 0 \<le> confidence fake_result \<and> confidence fake_result \<le> 1"
proof -
  have a: "resolve_text all_up plain_request = (Inr long_text, [])" by (rule resolve_plain)
  have b: "AI_MODEL_API all_up long_text =
             Fulfilled (Some \<lparr>d_prediction = Some ''fake'', d_confidence = Some 0.87\<rparr>)"
    by (simp add: all_up_def)
  have l: "50 \<le> length long_text" by (simp add: long_text_length)
  have s: "AI_SENTIMENT_API all_up long_text =
             Fulfilled (Some \<lparr>d_sentiment = Some \<lparr>label = ''positive'', score = 0.6\<rparr>\<rparr>)"
    by (simp add: all_up_def)
  have e: "AI_EXPLAIN_API all_up long_text =
             Fulfilled (Some \<lparr>d_explanation =
               Some \<lparr>keywords_of = [''shocking''], importance_scores = [0.4]\<rparr>\<rparr>)"
    by (simp add: all_up_def)
  have c: "fst (analyze all_up ''2026-11-03T09:00:00.000Z'' plain_request) = Inr fake_result"
    using analyze_with_body [OF a l b, of "''2026-11-03T09:00:00.000Z''"] s e
    by (simp add: fake_result_def long_text_length)
  have q: "\<exists>c. d_confidence \<lparr>d_prediction = Some ''fake'', d_confidence = Some 0.87\<rparr> = Some c
                  \<and> 0 \<le> c \<and> c \<le> (1::real)"
    by (rule exI [of _ "0.87"]) simp
  from result_fields [OF c a b] q
  have "article_text fake_result = take 2000 long_text
        \<and> prediction fake_result \<in> {''real'', ''fake'', ''unknown''}
        \<and> 0 \<le> confidence fake_result \<and> confidence fake_result \<le> 1"
    by simp
  with a b c show ?thesis by simp
qed

subsection \<open>Validation and extraction\<close>

text \<open>
  Claim C6. When the resolved text (the text of the request, or the extracted one) is
  shorter than 50 characters, the handler answers 400 "too short", a ValidationError, and
  none of the prediction, sentiment and explanation calls is made.
\<close>

theorem short_text_rejected:
  assumes "resolve_text env req = (Inr t, sent)" and "length t < 50"
  shows "fst (analyze env now_iso req) = Inl TooShort
         \<and> kind_of TooShort = ValidationError
         \<and> filter is_analysis_call (snd (analyze env now_iso req)) = []"
proof -
  have "analyze env now_iso req = (Inl TooShort, sent)"
    using assms by (simp add: analyze_def)
  moreover have "filter is_analysis_call sent = []"
    using resolve_text_no_analysis_call [of env req] assms(1) by simp
  ultimately show ?thesis by simp
qed

theorem short_text_rejected_witness:
  "resolve_text all_up short_request = (Inr ''Too short to analyse.'', [])
   \<and> length ''Too short to analyse.'' < 50
   \<and> fst (analyze all_up ''2026-11-03T09:00:00.000Z'' short_request) = Inl TooShort
   \<and> filter is_analysis_call (snd (analyze all_up ''2026-11-03T09:00:00.000Z'' short_request)) = []"
proof -
  have a: "resolve_text all_up short_request = (Inr ''Too short to analyse.'', [])"
    by (simp add: resolve_text_def short_request_def)
  have b: "length ''Too short to analyse.'' < 50" by simp
  from short_text_rejected [OF a b] a b show ?thesis by simp
qed




section \<open>Properties of the trending route\<close>

subsection \<open>Auxiliary facts\<close>

lemma checkRateLimit_date: "lastResetDate (snd (checkRateLimit cfg day now s)) = day"
  by (simp add: checkRateLimit_def Let_def)

lemma checkRateLimit_same_day:
  "lastResetDate s = day \<Longrightarrow> snd (checkRateLimit cfg day now s) = s"
  by (simp add: checkRateLimit_def Let_def)

lemma checkRateLimit_new_day:
  "lastResetDate s \<noteq> day \<Longrightarrow>
     snd (checkRateLimit cfg day now s) = s\<lparr>dailyRequests := 0, lastResetDate := day\<rparr>"
  by (simp add: checkRateLimit_def Let_def)

lemma checkRateLimit_counter:
  "dailyRequests (snd (checkRateLimit cfg day now s)) = counted_on day s"
  by (simp add: checkRateLimit_def Let_def counted_on_def)

lemma checkRateLimit_result:
  "fst (checkRateLimit cfg day now s) =
     (if daily_limit cfg \<le> counted_on day s then Inl DailyQuotaExceeded
      else if now - lastRequestTime s < 1000 then Inl TooFrequent else Inr ())"
  by (simp add: checkRateLimit_def Let_def counted_on_def)

lemma checkAndConsume_result:
  "fst (checkAndConsume cfg day now now2 s) =
     (if daily_limit cfg \<le> counted_on day s then Inl DailyQuotaExceeded
      else if now - lastRequestTime s < 1000 then Inl TooFrequent else Inr ())"
  using checkRateLimit_result [of cfg day now s]
  by (cases "checkRateLimit cfg day now s") (auto simp: checkAndConsume_def split: sum.splits)

lemma checkAndConsume_counted:
  "counted_on day (snd (checkAndConsume cfg day now now2 s)) =
     counted_on day s + (if fst (checkAndConsume cfg day now now2 s) = Inr () then 1 else 0)"
  using checkRateLimit_counter [of cfg day now s] checkRateLimit_date [of cfg day now s]
  by (cases "checkRateLimit cfg day now s")
     (auto simp: checkAndConsume_def counted_on_def split: sum.splits)

lemma checkAndConsume_date: "lastResetDate (snd (checkAndConsume cfg day now now2 s)) = day"
  using checkRateLimit_date [of cfg day now s]
  by (cases "checkRateLimit cfg day now s") (auto simp: checkAndConsume_def split: sum.splits)

lemma checkAndConsume_time:
  "lastRequestTime (snd (checkAndConsume cfg day now now2 s)) =
     (if fst (checkAndConsume cfg day now now2 s) = Inr () then now2 else lastRequestTime s)"
  by (auto simp: checkAndConsume_def checkRateLimit_def Let_def)

lemma checkAndConsume_cache: "cache (snd (checkAndConsume cfg day now now2 s)) = cache s"
  by (auto simp: checkAndConsume_def checkRateLimit_def Let_def)

lemma checkAndConsume_bound:
  "dailyRequests s \<le> daily_limit cfg \<Longrightarrow>
     dailyRequests (snd (checkAndConsume cfg day now now2 s)) \<le> daily_limit cfg"
  by (auto simp: checkAndConsume_def checkRateLimit_def Let_def)

lemma consume_all_counted:
  "consume_all cfg day ts s = (rs, s') \<Longrightarrow> counted_on day s' = counted_on day s + successes rs"
proof (induction ts arbitrary: s rs s')
  case Nil
  then show ?case by (simp add: successes_def)
next
  case (Cons a ts)
  obtain now now2 where a: "a = (now, now2)" by (cases a)
  obtain r s1 where step: "checkAndConsume cfg day now now2 s = (r, s1)"
    by (cases "checkAndConsume cfg day now now2 s")
  obtain rs1 s2 where rest: "consume_all cfg day ts s1 = (rs1, s2)"
    by (cases "consume_all cfg day ts s1")
  from Cons.prems a step rest have eq: "rs = r # rs1" "s' = s2" by auto
  from Cons.IH [OF rest] have "counted_on day s2 = counted_on day s1 + successes rs1" .
  moreover from checkAndConsume_counted [of day cfg now now2 s] step
  have "counted_on day s1 = counted_on day s + (if r = Inr () then 1 else 0)" by simp
  ultimately show ?case using eq by (simp add: successes_def)
qed

lemma consume_all_bounded:
  "consume_all cfg day ts s = (rs, s') \<Longrightarrow> counted_on day s \<le> daily_limit cfg \<Longrightarrow>
     counted_on day s' \<le> daily_limit cfg"
proof (induction ts arbitrary: s rs s')
  case Nil
  then show ?case by simp
next
  case (Cons a ts)
  obtain now now2 where a: "a = (now, now2)" by (cases a)
  obtain r s1 where step: "checkAndConsume cfg day now now2 s = (r, s1)"
    by (cases "checkAndConsume cfg day now now2 s")
  obtain rs1 s2 where rest: "consume_all cfg day ts s1 = (rs1, s2)"
    by (cases "consume_all cfg day ts s1")
  from Cons.prems a step rest have eq: "s' = s2" by auto
  have "counted_on day s1 \<le> daily_limit cfg"
    using checkAndConsume_counted [of day cfg now now2 s]
          checkAndConsume_result [of cfg day now now2 s] step Cons.prems(2)
    by (auto split: if_splits)
  from Cons.IH [OF rest this] eq show ?case by simp
qed

lemma get_after_set:
  "cache_get now (cache_set v t0 s) = (if now < t0 + 1800 * 1000 then Some v else None)"
  by (simp add: cache_get_def cache_set_def stdTTL_def)

lemma fetch_on_hit:
  "cache_get (at_get clk) s = Some v \<Longrightarrow>
     fetchTrending cfg clk now_iso now response s = ((Feed v, False), s)"
  by (simp add: fetchTrending_def trending_begin_def)

lemma fetch_on_miss:
  assumes "cache_get (at_get clk) s = None"
  shows "snd (fst (fetchTrending cfg clk now_iso now response s)) \<longleftrightarrow>
           key_configured cfg
           \<and> fst (checkAndConsume cfg (today clk) (at_check clk) (at_consume clk) s) = Inr ()"
proof (cases "key_configured cfg")
  case False
  with assms show ?thesis by (simp add: fetchTrending_def trending_begin_def)
next
  case True
  obtain r s1 where c: "checkAndConsume cfg (today clk) (at_check clk) (at_consume clk) s = (r, s1)"
    by (cases "checkAndConsume cfg (today clk) (at_check clk) (at_consume clk) s")
  obtain r2 s2 where f: "trending_finish cfg now_iso now response s1 = (r2, s2)"
    by (cases "trending_finish cfg now_iso now response s1")
  show ?thesis
    using assms True c f
    by (cases r) (auto simp: fetchTrending_def trending_begin_def)
qed

lemma feed_on_miss_is_fresh:
  assumes "cache_get (at_get clk) s = None"
      and "fst (fst (fetchTrending cfg clk now_iso now response s)) = Feed r"
  shows "snd (fst (fetchTrending cfg clk now_iso now response s))"
proof -
  obtain p s1 where b: "trending_begin cfg clk s = (p, s1)" by (cases "trending_begin cfg clk s")
  have "p \<noteq> Respond (Feed r)"
    using assms(1) b
    by (auto simp: trending_begin_def split: if_splits prod.splits sum.splits)
  then show ?thesis
    using assms(2) b
    by (cases p) (auto simp: fetchTrending_def split: prod.splits)
qed

lemma trending_begin_state:
  "snd (trending_begin cfg clk s) = s \<or>
   snd (trending_begin cfg clk s) =
     snd (checkAndConsume cfg (today clk) (at_check clk) (at_consume clk) s)"
  by (auto simp: trending_begin_def split: option.splits prod.splits sum.splits)

lemma inv_begin: "state_inv cfg s \<Longrightarrow> state_inv cfg (snd (trending_begin cfg clk s))"
  using trending_begin_state [of cfg clk s]
        checkAndConsume_bound [of s cfg "today clk" "at_check clk" "at_consume clk"]
        checkAndConsume_cache [of cfg "today clk" "at_check clk" "at_consume clk" s]
  by (auto simp: state_inv_def)

lemma inv_finish: "state_inv cfg s \<Longrightarrow> state_inv cfg (snd (trending_finish cfg now_iso now response s))"
  by (auto simp: state_inv_def trending_finish_def cache_set_def Let_def
           split: settled.splits option.splits)

lemma reachable_inv: "reachable cfg s \<Longrightarrow> state_inv cfg s"
proof (induction rule: reachable.induct)
  case (at_load d)
  show ?case by (simp add: state_inv_def initial_state_def)
next
  case (after_begin s clk)
  then show ?case by (simp add: inv_begin)
next
  case (after_finish s now_iso now response)
  then show ?case by (simp add: inv_finish)
qed

lemma finish_remaining:
  "fst (trending_finish cfg now_iso now response s) = Feed r \<Longrightarrow>
     remainingRequests r = max 0 (int (daily_limit cfg) - int (dailyRequests s))"
  by (auto simp: trending_finish_def Let_def split: settled.splits option.splits)

lemma begin_feed_cached:
  "fst (trending_begin cfg clk s) = Respond (Feed r) \<Longrightarrow> \<exists>e. cache s = Some (r, e)"
  by (auto simp: trending_begin_def cache_get_def split: option.splits if_splits prod.splits sum.splits)

lemma small_run:
  "consume_all small_cfg tuesday three_attempts after_monday =
     ([Inr (), Inl TooFrequent, Inr ()],
      \<lparr>lastRequestTime = 1793700001100, dailyRequests = 2, lastResetDate = tuesday, cache = None\<rparr>)"
  by (simp add: three_attempts_def small_cfg_def daily_limit_def after_monday_def
        checkAndConsume_def checkRateLimit_def Let_def monday_def tuesday_def)

lemma one_run:
  "consume_all small_cfg tuesday [(1793700000000, 1793700000000)] after_monday =
     ([Inr ()],
      \<lparr>lastRequestTime = 1793700000000, dailyRequests = 1, lastResetDate = tuesday, cache = None\<rparr>)"
  by (simp add: small_cfg_def daily_limit_def after_monday_def
        checkAndConsume_def checkRateLimit_def Let_def monday_def tuesday_def)

lemma first_begin:
  "trending_begin default_cfg first_clock (initial_state tuesday) = (CallProvider, consumed_once)"
  by (simp add: trending_begin_def cache_get_def initial_state_def key_configured_def
        default_cfg_def first_clock_def checkAndConsume_def checkRateLimit_def Let_def
        daily_limit_def consumed_once_def)

lemma first_finish:
  "trending_finish default_cfg ''2026-11-03T09:00:00.500Z'' 1793700000500
     (Fulfilled (Some one_article)) consumed_once = (Feed one_feed, feed_cached)"
  by (simp add: trending_finish_def one_article_def Let_def default_cfg_def daily_limit_def
        consumed_once_def one_feed_def feed_cached_def cache_set_def stdTTL_def)

subsection \<open>Quota and pacing\<close>

text \<open>
  Claim C2, as stated, fails in its last part: the interval is measured from the last
  consumption that succeeded, so of two attempts 500ms apart the second succeeds when the
  first was refused. Here the second attempt comes 600ms after the first and is refused,
  and the third, 500ms after the second, succeeds.
\<close>

theorem pacing_counterexample:
  "consume_all default_cfg tuesday three_attempts (initial_state tuesday) =
     ([Inr (), Inl TooFrequent, Inr ()],
      \<lparr>lastRequestTime = 1793700001100, dailyRequests = 2, lastResetDate = tuesday, cache = None\<rparr>)
   \<and> (1793700001100::int) - 1793700000600 < 1000
   \<and> 2 < daily_limit default_cfg"
  by (simp add: three_attempts_def default_cfg_def daily_limit_def initial_state_def
        checkAndConsume_def checkRateLimit_def Let_def)

text \<open>
  Claim C2, amended. Over the attempts of one calendar day, starting with nothing counted
  for that day, at most \<open>dailyLimit\<close> attempts succeed (default 100); once
  \<open>dailyLimit\<close> have succeeded the next attempt of the day fails with
  DailyQuotaExceeded; while quota remains, an attempt less than 1000ms after the last
  successful consumption fails with TooFrequent and one at least 1000ms after it succeeds;
  a refused attempt leaves the time of the last consumption as it was.
\<close>

theorem quota_and_pacing:
  assumes "counted_on day s = 0" and "consume_all cfg day ts s = (rs, s')"
  shows "successes rs \<le> daily_limit cfg
       \<and> counted_on day s' = successes rs
       \<and> (successes rs = daily_limit cfg \<longrightarrow>
            fst (checkAndConsume cfg day now now2 s') = Inl DailyQuotaExceeded)
       \<and> (successes rs < daily_limit cfg \<and> now - lastRequestTime s' < 1000 \<longrightarrow>
            fst (checkAndConsume cfg day now now2 s') = Inl TooFrequent)
       \<and> (successes rs < daily_limit cfg \<and> 1000 \<le> now - lastRequestTime s' \<longrightarrow>
            fst (checkAndConsume cfg day now now2 s') = Inr ()
            \<and> lastRequestTime (snd (checkAndConsume cfg day now now2 s')) = now2)
       \<and> (fst (checkAndConsume cfg day now now2 s') \<noteq> Inr () \<longrightarrow>
            lastRequestTime (snd (checkAndConsume cfg day now now2 s')) = lastRequestTime s')
       \<and> (GNEWS_RATE_LIMIT_PER_DAY cfg = None \<longrightarrow> daily_limit cfg = 100)"
proof -
  have c: "counted_on day s' = successes rs"
    using consume_all_counted [OF assms(2)] assms(1) by simp
  have b: "successes rs \<le> daily_limit cfg"
    using consume_all_bounded [OF assms(2)] assms(1) c by simp
  have r: "fst (checkAndConsume cfg day now now2 s') =
     (if daily_limit cfg \<le> successes rs then Inl DailyQuotaExceeded
      else if now - lastRequestTime s' < 1000 then Inl TooFrequent else Inr ())"
    using checkAndConsume_result [of cfg day now now2 s'] c by simp
  have t: "lastRequestTime (snd (checkAndConsume cfg day now now2 s')) =
     (if fst (checkAndConsume cfg day now now2 s') = Inr () then now2 else lastRequestTime s')"
    by (rule checkAndConsume_time)
  have d: "GNEWS_RATE_LIMIT_PER_DAY cfg = None \<longrightarrow> daily_limit cfg = 100"
    by (simp add: daily_limit_def)
  show ?thesis using c b r t d by simp
qed

theorem quota_and_pacing_witness:
  "counted_on tuesday after_monday = 0
   \<and> successes [Inr (), Inl TooFrequent, Inr ()] = daily_limit small_cfg
   \<and> fst (checkAndConsume small_cfg tuesday 1793700009000 1793700009000
        \<lparr>lastRequestTime = 1793700001100, dailyRequests = 2, lastResetDate = tuesday, cache = None\<rparr>)
       = Inl DailyQuotaExceeded
   \<and> successes [Inr ()] < daily_limit small_cfg
   \<and> fst (checkAndConsume small_cfg tuesday 1793700000999 1793700000999
        \<lparr>lastRequestTime = 1793700000000, dailyRequests = 1, lastResetDate = tuesday, cache = None\<rparr>)
       = Inl TooFrequent
   \<and> fst (checkAndConsume small_cfg tuesday 1793700001000 1793700001000
        \<lparr>lastRequestTime = 1793700000000, dailyRequests = 1, lastResetDate = tuesday, cache = None\<rparr>)
       = Inr ()"
proof -
  have z: "counted_on tuesday after_monday = 0"
    by (simp add: counted_on_def after_monday_def monday_def tuesday_def)
  have n3: "successes [Inr (), Inl TooFrequent, Inr ()] = daily_limit small_cfg"
    by (simp add: successes_def small_cfg_def daily_limit_def)
  have n1: "successes [Inr ()] < daily_limit small_cfg"
    by (simp add: successes_def small_cfg_def daily_limit_def)
  from quota_and_pacing [OF z small_run, of 1793700009000 1793700009000] n3
  have a: "fst (checkAndConsume small_cfg tuesday 1793700009000 1793700009000
        \<lparr>lastRequestTime = 1793700001100, dailyRequests = 2, lastResetDate = tuesday, cache = None\<rparr>)
       = Inl DailyQuotaExceeded" by simp
  from quota_and_pacing [OF z one_run, of 1793700000999 1793700000999] n1
  have b: "fst (checkAndConsume small_cfg tuesday 1793700000999 1793700000999
        \<lparr>lastRequestTime = 1793700000000, dailyRequests = 1, lastResetDate = tuesday, cache = None\<rparr>)
       = Inl TooFrequent" by simp
  from quota_and_pacing [OF z one_run, of 1793700001000 1793700001000] n1
  have c: "fst (checkAndConsume small_cfg tuesday 1793700001000 1793700001000
        \<lparr>lastRequestTime = 1793700000000, dailyRequests = 1, lastResetDate = tuesday, cache = None\<rparr>)
       = Inr ()" by simp
  from z n3 n1 a b c show ?thesis by simp
qed

text \<open>
  Claim C8. The counter is reset inside \<open>checkRateLimit\<close> and nowhere else: called on
  a day other than \<open>lastResetDate\<close>, it sets the counter to 0 and the date to today
  and only then compares with the quota; called again on that day it resets nothing; a
  request served from the cache or refused for a missing key does not reach it and leaves
  the state as it is.
\<close>

theorem lazy_daily_reset:
  "(lastResetDate s \<noteq> day \<longrightarrow>
      snd (checkRateLimit cfg day now s) = s\<lparr>dailyRequests := 0, lastResetDate := day\<rparr>
      \<and> (fst (checkRateLimit cfg day now s) = Inl DailyQuotaExceeded \<longleftrightarrow> daily_limit cfg = 0))
   \<and> (lastResetDate s = day \<longrightarrow> snd (checkRateLimit cfg day now s) = s)
   \<and> snd (checkRateLimit cfg day now' (snd (checkRateLimit cfg day now s))) =
       snd (checkRateLimit cfg day now s)
   \<and> (cache_get (at_get clk) s \<noteq> None \<or> \<not> key_configured cfg \<longrightarrow>
        snd (trending_begin cfg clk s) = s)"
proof -
  have a: "lastResetDate s \<noteq> day \<longrightarrow>
      snd (checkRateLimit cfg day now s) = s\<lparr>dailyRequests := 0, lastResetDate := day\<rparr>
      \<and> (fst (checkRateLimit cfg day now s) = Inl DailyQuotaExceeded \<longleftrightarrow> daily_limit cfg = 0)"
    by (auto simp: checkRateLimit_def Let_def)
  have b: "lastResetDate s = day \<longrightarrow> snd (checkRateLimit cfg day now s) = s"
    by (simp add: checkRateLimit_same_day)
  have c: "snd (checkRateLimit cfg day now' (snd (checkRateLimit cfg day now s))) =
       snd (checkRateLimit cfg day now s)"
    by (rule checkRateLimit_same_day) (rule checkRateLimit_date)
  have d: "cache_get (at_get clk) s \<noteq> None \<or> \<not> key_configured cfg \<longrightarrow>
        snd (trending_begin cfg clk s) = s"
    by (auto simp: trending_begin_def split: option.splits)
  show ?thesis using a b c d by blast
qed


theorem lazy_daily_reset_witness:
  "lastResetDate after_monday \<noteq> tuesday
   \<and> snd (checkRateLimit default_cfg tuesday 1793700000000 after_monday) =
       \<lparr>lastRequestTime = 1793650000000, dailyRequests = 0, lastResetDate = tuesday, cache = None\<rparr>
   \<and> lastResetDate after_monday = monday
   \<and> snd (checkRateLimit default_cfg monday 1793660000000 after_monday) = after_monday
   \<and> snd (trending_begin no_key_cfg first_clock after_monday) = after_monday"
proof -
  have a: "lastResetDate after_monday \<noteq> tuesday"
    by (simp add: after_monday_def monday_def tuesday_def)
  have b: "lastResetDate after_monday = monday" by (simp add: after_monday_def)
  have k: "\<not> key_configured no_key_cfg" by (simp add: key_configured_def no_key_cfg_def)
  from lazy_daily_reset [of after_monday tuesday default_cfg 1793700000000] a
  have c: "snd (checkRateLimit default_cfg tuesday 1793700000000 after_monday) =
       after_monday\<lparr>dailyRequests := 0, lastResetDate := tuesday\<rparr>" by simp
  from lazy_daily_reset [of after_monday monday default_cfg 1793660000000] b
  have d: "snd (checkRateLimit default_cfg monday 1793660000000 after_monday) = after_monday"
    by simp
  from lazy_daily_reset [where s = after_monday and cfg = no_key_cfg and clk = first_clock] k
  have e: "snd (trending_begin no_key_cfg first_clock after_monday) = after_monday" by simp
  from a b c d e show ?thesis by (simp add: after_monday_def)
qed

text \<open>
  Claim C10. In every state the module can reach the counter is at most the quota; a
  consumption succeeds only when fewer than \<open>dailyLimit\<close> requests are counted for
  the day and then counts one more; so the \<open>remainingRequests\<close> of every feed, fresh
  or served from the cache, is the quota less the counter and not negative.
\<close>

theorem daily_counter_bounded:
  assumes "reachable cfg s"
  shows "dailyRequests s \<le> daily_limit cfg
       \<and> (fst (checkAndConsume cfg day now now2 s) = Inr () \<longrightarrow>
            counted_on day s < daily_limit cfg
            \<and> dailyRequests (snd (checkAndConsume cfg day now now2 s)) = counted_on day s + 1)
       \<and> (fst (trending_finish cfg now_iso now' response s) = Feed r \<longrightarrow>
            remainingRequests r = int (daily_limit cfg) - int (dailyRequests s)
            \<and> 0 \<le> remainingRequests r)
       \<and> (fst (trending_begin cfg clk s) = Respond (Feed r') \<longrightarrow> 0 \<le> remainingRequests r')"
proof -
  have i: "state_inv cfg s" using assms by (rule reachable_inv)
  then have a: "dailyRequests s \<le> daily_limit cfg" by (simp add: state_inv_def)
  have b: "fst (checkAndConsume cfg day now now2 s) = Inr () \<longrightarrow>
            counted_on day s < daily_limit cfg
            \<and> dailyRequests (snd (checkAndConsume cfg day now now2 s)) = counted_on day s + 1"
    using checkAndConsume_result [of cfg day now now2 s]
          checkAndConsume_counted [of day cfg now now2 s]
          checkAndConsume_date [of cfg day now now2 s]
    by (auto simp: counted_on_def split: if_splits)
  have c: "fst (trending_finish cfg now_iso now' response s) = Feed r \<longrightarrow>
            remainingRequests r = int (daily_limit cfg) - int (dailyRequests s)
            \<and> 0 \<le> remainingRequests r"
    using finish_remaining [of cfg now_iso now' response s r] a by auto
  have d: "fst (trending_begin cfg clk s) = Respond (Feed r') \<longrightarrow> 0 \<le> remainingRequests r'"
    using begin_feed_cached [of cfg clk s r'] i by (auto simp: state_inv_def)
  show ?thesis using a b c d by blast
qed


theorem daily_counter_bounded_witness:
  "reachable default_cfg consumed_once
   \<and> dailyRequests consumed_once \<le> daily_limit default_cfg
   \<and> fst (trending_finish default_cfg ''2026-11-03T09:00:00.500Z'' 1793700000500
            (Fulfilled (Some one_article)) consumed_once) = Feed one_feed
   \<and> remainingRequests one_feed = 99
   \<and> 0 \<le> remainingRequests one_feed"
proof -
  have "reachable default_cfg (snd (trending_begin default_cfg first_clock (initial_state tuesday)))"
    by (rule reachable.after_begin) (rule reachable.at_load)
  then have r: "reachable default_cfg consumed_once" by (simp add: first_begin)
  have f: "fst (trending_finish default_cfg ''2026-11-03T09:00:00.500Z'' 1793700000500
            (Fulfilled (Some one_article)) consumed_once) = Feed one_feed"
    by (simp add: first_finish)
  from daily_counter_bounded [OF r, where now_iso = "''2026-11-03T09:00:00.500Z''"
         and now' = 1793700000500 and response = "Fulfilled (Some one_article)" and r = one_feed] f
  have "dailyRequests consumed_once \<le> daily_limit default_cfg
        \<and> remainingRequests one_feed
            = int (daily_limit default_cfg) - int (dailyRequests consumed_once)
        \<and> 0 \<le> remainingRequests one_feed"
    by simp
  with r f show ?thesis by (simp add: one_feed_def)
qed

subsection \<open>The cache\<close>

text \<open>
  Claim C4. A \<open>get\<close> less than 1800 seconds after a \<open>set\<close> returns the value set;
  on such a hit the request is answered with it, the provider is not called and the state
  of the rate limiter is untouched. Once the 1800 seconds have passed \<open>get\<close> is
  empty; then the provider is called exactly when the key is configured and the rate
  limiter lets the request pass, and a feed can only come from that call.
\<close>

theorem cache_slot:
  "(now < t0 + 1800 * 1000 \<longrightarrow> cache_get now (cache_set v t0 s0) = Some v)
   \<and> (t0 + 1800 * 1000 \<le> now \<longrightarrow> cache_get now (cache_set v t0 s0) = None)
   \<and> (cache_get (at_get clk) s = Some v \<longrightarrow>
        fetchTrending cfg clk now_iso now' response s = ((Feed v, False), s))
   \<and> (cache_get (at_get clk) s = None \<longrightarrow>
        (snd (fst (fetchTrending cfg clk now_iso now' response s)) \<longleftrightarrow>
           key_configured cfg
           \<and> fst (checkAndConsume cfg (today clk) (at_check clk) (at_consume clk) s) = Inr ())
        \<and> (fst (fst (fetchTrending cfg clk now_iso now' response s)) = Feed r \<longrightarrow>
             snd (fst (fetchTrending cfg clk now_iso now' response s))))"
  using get_after_set [of now v t0 s0] fetch_on_hit [of clk s v cfg now_iso now' response]
        fetch_on_miss [of clk s cfg now_iso now' response]
        feed_on_miss_is_fresh [of clk s cfg now_iso now' response r]
  by auto

theorem cache_slot_witness:
  "cache_get 1793701800499 (cache_set one_feed 1793700000500 consumed_once) = Some one_feed
   \<and> cache_get 1793701800500 (cache_set one_feed 1793700000500 consumed_once) = None
   \<and> cache_get (at_get first_clock) feed_cached = Some one_feed
   \<and> fetchTrending default_cfg first_clock ''2026-11-03T09:00:01.000Z'' 1793700001000
        (Rejected Timeout) feed_cached = ((Feed one_feed, False), feed_cached)
   \<and> cache_get (at_get later_clock) feed_cached = None
   \<and> snd (fst (fetchTrending default_cfg later_clock ''2026-11-03T09:30:01.000Z'' 1793701801000
        (Rejected Timeout) feed_cached))"
proof -
  have a: "cache_get 1793701800499 (cache_set one_feed 1793700000500 consumed_once) = Some one_feed
      \<and> cache_get 1793701800500 (cache_set one_feed 1793700000500 consumed_once) = None"
    using cache_slot [where now = 1793701800499 and ?t0.0 = 1793700000500 and v = one_feed
                        and ?s0.0 = consumed_once]
          cache_slot [where now = 1793701800500 and ?t0.0 = 1793700000500 and v = one_feed
                        and ?s0.0 = consumed_once]
    by simp
  have h: "cache_get (at_get first_clock) feed_cached = Some one_feed"
    by (simp add: cache_get_def feed_cached_def first_clock_def)
  have m: "cache_get (at_get later_clock) feed_cached = None"
    by (simp add: cache_get_def feed_cached_def later_clock_def)
  have k: "key_configured default_cfg" by (simp add: key_configured_def default_cfg_def)
  have c: "fst (checkAndConsume default_cfg (today later_clock) (at_check later_clock)
             (at_consume later_clock) feed_cached) = Inr ()"
    by (simp add: checkAndConsume_def checkRateLimit_def Let_def later_clock_def
          feed_cached_def default_cfg_def daily_limit_def)
  from cache_slot [where clk = first_clock and s = feed_cached and v = one_feed
         and cfg = default_cfg and now_iso = "''2026-11-03T09:00:01.000Z''"
         and now' = 1793700001000 and response = "Rejected Timeout"] h
  have b: "fetchTrending default_cfg first_clock ''2026-11-03T09:00:01.000Z'' 1793700001000
        (Rejected Timeout) feed_cached = ((Feed one_feed, False), feed_cached)" by simp
  from cache_slot [where clk = later_clock and s = feed_cached
         and cfg = default_cfg and now_iso = "''2026-11-03T09:30:01.000Z''"
         and now' = 1793701801000 and response = "Rejected Timeout"] m k c
  have d: "snd (fst (fetchTrending default_cfg later_clock ''2026-11-03T09:30:01.000Z''
        1793701801000 (Rejected Timeout) feed_cached))" by simp
  from a h b m d show ?thesis by simp
qed

end
